theory Spec2Isabelle
  imports Main "HOL-Library.Word" "HOL-Library.Sublist"
begin

unbundle bit_operations_syntax

section \<open>Go channels\<close>

text \<open>
  A channel made by \<open>make(chan T, n)\<close>: its capacity, the values buffered in arrival
  order, and the values of the senders parked in a blocking send. The receivers of this
  program either poll (a \<open>select\<close> with \<open>default\<close>) or are the single consumer of a
  buffered channel, for which a hand-over to a parked receiver is the same as buffering
  the value and taking it at once; parked receivers are therefore not part of the state.
\<close>

record 'a chan =
  cap :: nat
  buf :: "'a list"
  sendq :: "'a list"

definition make_chan :: "nat \<Rightarrow> 'a chan" where
  "make_chan n = \<lparr>cap = n, buf = [], sendq = []\<rparr>"

datatype send_result = Sent | Blocked

text \<open>
  The blocking send \<open>c <- v\<close>: with room in the buffer the value is queued and the sender
  goes on; otherwise the sender parks until a receiver takes its value.
\<close>

definition chan_send :: "'a chan \<Rightarrow> 'a \<Rightarrow> 'a chan \<times> send_result" where
  "chan_send c v =
     (if length (buf c) < cap c then (c\<lparr>buf := buf c @ [v]\<rparr>, Sent)
      else (c\<lparr>sendq := sendq c @ [v]\<rparr>, Blocked))"

text \<open>
  The non-blocking send \<open>select { case c <- v: default: }\<close>: the flag tells whether the
  send case was taken.
\<close>

definition chan_try_send :: "'a chan \<Rightarrow> 'a \<Rightarrow> 'a chan \<times> bool" where
  "chan_try_send c v =
     (if length (buf c) < cap c then (c\<lparr>buf := buf c @ [v]\<rparr>, True) else (c, False))"

text \<open>
  A receive that finds a value ready: the oldest buffered value (a parked sender then moves
  its value into the freed slot), or on an empty buffer the value of the first parked
  sender. \<open>None\<close> when nothing is ready: the \<open>default\<close> branch of a polling
  \<open>select\<close>, and a case that a blocking \<open>select\<close> cannot take.
\<close>

definition chan_try_recv :: "'a chan \<Rightarrow> 'a option \<times> 'a chan" where
  "chan_try_recv c =
     (case buf c of
        x # xs \<Rightarrow>
          (case sendq c of
             [] \<Rightarrow> (Some x, c\<lparr>buf := xs\<rparr>)
           | s # ss \<Rightarrow> (Some x, c\<lparr>buf := xs @ [s], sendq := ss\<rparr>))
      | [] \<Rightarrow>
          (case sendq c of
             [] \<Rightarrow> (None, c)
           | s # ss \<Rightarrow> (Some s, c\<lparr>sendq := ss\<rparr>)))"



section \<open>Capture consumer: raw bytes to encoder samples (record.go)\<close>

text \<open>
  A capture frame is a Go \<open>[]byte\<close>. The encoder takes an \<open>[]int\<close>; Go's \<open>int\<close> is
  modelled at its 64-bit width. \<open>int16(x)\<close> keeps the 16 bits of a \<open>uint16\<close>, and
  \<open>int(val)\<close> on an \<open>int16\<close> is the sign-extending conversion \<open>scast\<close>.
\<close>

type_synonym byte = "8 word"
type_synonym uint16 = "16 word"
type_synonym go_int = "64 word"

text \<open>
  The slice expression \<open>xs[lo:hi]\<close>. Go panics when the bounds are out of range;
  \<open>None\<close> is that panic.
\<close>

definition slice_go :: "'a list \<Rightarrow> nat \<Rightarrow> nat \<Rightarrow> 'a list option" where
  "slice_go xs lo hi =
     (if lo \<le> hi \<and> hi \<le> length xs then Some (take (hi - lo) (drop lo xs)) else None)"

text \<open>
  \<open>binary.LittleEndian.Uint16(b)\<close>, that is \<open>uint16(b[0]) | uint16(b[1])<<8\<close>, with the
  panic of the bounds check on a slice shorter than two bytes.
\<close>

definition Uint16 :: "byte list \<Rightarrow> uint16 option" where
  "Uint16 b =
     (if length b < 2 then None
      else Some (ucast (b ! 0) OR push_bit 8 (ucast (b ! 1))))"

text \<open>
  The conversion loop of \<open>runRecord\<close> (record.go, lines 103 to 107):
  \<open>for i := 0; i < len(intData); i++ { val := int16(Uint16(data[i*2 : i*2+2])); intData[i] = int(val) }\<close>.
\<close>

function convert_loop :: "byte list \<Rightarrow> nat \<Rightarrow> go_int list \<Rightarrow> go_int list option" where
  "convert_loop data i intData =
     (if i < length intData then
        (case slice_go data (i * 2) (i * 2 + 2) of
           None \<Rightarrow> None
         | Some b \<Rightarrow>
            (case Uint16 b of
               None \<Rightarrow> None
             | Some u \<Rightarrow> convert_loop data (i + 1) (intData[i := scast u])))
      else Some intData)"
  by pat_completeness auto
termination
  by (relation "measure (\<lambda>(data, i, intData). length intData - i)") auto

declare convert_loop.simps [simp del]

text \<open>\<open>intData := make([]int, len(data)/2)\<close> followed by the loop.\<close>

definition bytes_to_ints :: "byte list \<Rightarrow> go_int list option" where
  "bytes_to_ints data = convert_loop data 0 (replicate (length data div 2) 0)"

text \<open>
  The value the claim speaks of: the signed 16-bit number whose low byte is \<open>lo\<close> and
  whose high byte is \<open>hi\<close>, as a mathematical integer.
\<close>

definition int16_value :: "byte \<Rightarrow> byte \<Rightarrow> int" where
  "int16_value lo hi =
     (let u = uint lo + 256 * uint hi in if u < 32768 then u else u - 65536)"

text \<open>The sample the loop stores at index \<open>j\<close>.\<close>

definition sample_at :: "byte list \<Rightarrow> nat \<Rightarrow> go_int" where
  "sample_at data j =
     scast ((ucast (data ! (j * 2)) OR push_bit 8 (ucast (data ! (j * 2 + 1)))) :: uint16)"



section \<open>Playback: the model and its update function\<close>

type_synonym go_error = string

text \<open>
  The \<open>audioState\<close> behind the pointer \<open>m.audio\<close> is shared between the update
  function and the audio thread, so it is threaded through every operation as a state of
  its own: the streamer's position and length, the sample rate of the format, the
  \<open>Paused\<close> flag of the \<open>beep.Ctrl\<close>, the total duration and the \<open>done\<close> channel.
  \<open>accesses\<close> is the log of what the control code did to the shared audio objects, in
  program order. Positions and lengths are Go \<open>int\<close>s on which the player does no
  arithmetic; they are modelled as integers.
\<close>

datatype access = TryRecvDone | ReadPaused | WritePaused | SpeakerLock | SpeakerUnlock
  | StreamerPosition | StreamerLen

record audioState =
  position :: int
  len :: int
  sampleRate :: int
  Paused :: bool
  duration :: int
  done_chan :: "bool chan"
  accesses :: "access list"

text \<open>
  \<open>progress.Model\<close> of the bubbles library: the exported field \<open>Width\<close> that the
  update function assigns, and the rest of the component's state, which only the library
  touches. \<open>Width\<close> is a Go \<open>int\<close>: the subtraction in the resize handler wraps and
  the comparison with 80 is signed.
\<close>

record 'p progress_Model =
  Width :: go_int
  rest :: 'p

text \<open>The struct \<open>model\<close> without its pointer field; \<open>'f\<close> stands for \<open>float64\<close>.\<close>

record ('p, 'f) model =
  progress :: "'p progress_Model"
  filename :: string
  playing :: bool
  pct :: 'f
  err :: "go_error option"

text \<open>
  A \<open>tea.Cmd\<close>: \<open>nil\<close>, \<open>tea.Quit\<close>, the 100 ms tick of \<open>tickCmd()\<close>, a command issued
  by the progress component, and \<open>tea.Batch\<close>.
\<close>

datatype cmd = NilCmd | Quit | tickCmd | FrameCmd nat | Batch "cmd list"

text \<open>
  A \<open>tea.Msg\<close>: a key press with the text of \<open>msg.String()\<close>, the tick, a frame message
  of the progress component, a window size (width and height), or any other message.
\<close>

datatype msg = KeyMsg string | tickMsg | FrameMsg nat | WindowSizeMsg go_int go_int | OtherMsg

text \<open>
  The operations of the libraries that the player calls and whose code is not part of the
  repository are parameters of the model: \<open>float_ratio p n\<close> is
  \<open>float64(p) / float64(n)\<close> and \<open>float_zero\<close> is \<open>0.0\<close>; \<open>SetPercent\<close>, \<open>progress_Update\<close>,
  \<open>progress_View\<close> and \<open>progress_New\<close> are the methods and the constructor of the
  progress component; \<open>SampleRate_D rate n\<close> is \<open>format.SampleRate.D(n)\<close> and
  \<open>Round_Second d\<close> is \<open>d.Round(time.Second)\<close>.
\<close>

record ('p, 'f) lib =
  float_ratio :: "int \<Rightarrow> int \<Rightarrow> 'f"
  float_zero :: 'f
  SetPercent :: "'p progress_Model \<Rightarrow> 'f \<Rightarrow> 'p progress_Model \<times> cmd"
  progress_Update :: "'p progress_Model \<Rightarrow> nat \<Rightarrow> 'p progress_Model \<times> cmd"
  progress_View :: "'p progress_Model \<Rightarrow> string"
  progress_New :: "'p progress_Model"
  SampleRate_D :: "int \<Rightarrow> int \<Rightarrow> int"
  Round_Second :: "int \<Rightarrow> int"

definition touch :: "access \<Rightarrow> audioState \<Rightarrow> audioState" where
  "touch a w = w\<lparr>accesses := accesses w @ [a]\<rparr>"

text \<open>
  \<open>model.Update\<close>. The receiver is a copy of the model, returned changed; the audio state
  is reached through the pointer and changed in place. The \<open>select\<close> with \<open>default\<close>
  on \<open>m.audio.done\<close> is \<open>chan_try_recv\<close>. A key that matches no case of the inner
  switch, and a message that matches no case of the type switch, reach the final
  \<open>return m, nil\<close>.
\<close>

definition Update :: "('p, 'f) lib \<Rightarrow> audioState \<Rightarrow> ('p, 'f) model \<Rightarrow> msg
    \<Rightarrow> audioState \<times> ('p, 'f) model \<times> cmd" where
  "Update L w m ms =
     (case ms of
        KeyMsg k \<Rightarrow>
          if k = ''q'' \<or> k = ''ctrl+c'' \<or> k = ''esc'' then (w, m, Quit)
          else if k = '' '' then
            (let w1 = touch ReadPaused w;
                 w2 = (touch WritePaused w1)\<lparr>Paused := \<not> Paused w1\<rparr>;
                 w3 = touch ReadPaused w2;
                 m1 = m\<lparr>playing := \<not> Paused w3\<rparr>
             in (w3, m1, NilCmd))
          else (w, m, NilCmd)
      | tickMsg \<Rightarrow>
          (case chan_try_recv (done_chan w) of
             (Some b, d) \<Rightarrow> ((touch TryRecvDone w)\<lparr>done_chan := d\<rparr>, m, Quit)
           | (None, d) \<Rightarrow>
               (let w0 = (touch TryRecvDone w)\<lparr>done_chan := d\<rparr>;
                    w1 = touch ReadPaused w0
                in if Paused w1 then (w1, m, tickCmd)
                   else
                     (let w2 = touch SpeakerLock w1;
                          pos = position w2;
                          w3 = touch StreamerPosition w2;
                          w4 = touch SpeakerUnlock w3;
                          total = len w4;
                          w5 = touch StreamerLen w4;
                          m1 = (if total > 0 then m\<lparr>pct := float_ratio L pos total\<rparr> else m);
                          (p, c) = SetPercent L (progress m1) (pct m1);
                          m2 = m1\<lparr>progress := p\<rparr>
                      in (w5, m2, Batch [c, tickCmd]))))
      | FrameMsg fr \<Rightarrow>
          (let (p, c) = progress_Update L (progress m) fr
           in (w, m\<lparr>progress := p\<rparr>, c))
      | WindowSizeMsg width height \<Rightarrow>
          (let m1 = m\<lparr>progress := (progress m)\<lparr>Width := width - 10\<rparr>\<rparr>;
               m2 = (if 80 <s Width (progress m1)
                     then m1\<lparr>progress := (progress m1)\<lparr>Width := 80\<rparr>\<rparr> else m1)
           in (w, m2, NilCmd))
      | OtherMsg \<Rightarrow> (w, m, NilCmd))"

text \<open>
  \<open>model.View\<close>. The Go function formats a string; the model returns what the string is
  made of: the file name, the playing flag that selects the status text, the rendered
  progress bar, the current position and the total duration as rounded durations.
\<close>

datatype view = ErrorView go_error | Screen string bool string int int

definition View :: "('p, 'f) lib \<Rightarrow> audioState \<Rightarrow> ('p, 'f) model \<Rightarrow> view \<times> audioState" where
  "View L w m =
     (case err m of
        Some e \<Rightarrow> (ErrorView e, w)
      | None \<Rightarrow>
          (let status = playing m;
               pos = position w;
               w1 = touch StreamerPosition w;
               currentPos = Round_Second L (SampleRate_D L (sampleRate w1) pos);
               totalDur = Round_Second L (duration w1)
           in (Screen (filename m) status (progress_View L (progress m)) currentPos totalDur, w1)))"

text \<open>
  The locking discipline on an access log: every read of the streamer position lies
  between \<open>speaker.Lock()\<close> and \<open>speaker.Unlock()\<close>. The flag says whether the lock
  is held at the start of the log.
\<close>

fun locked_reads :: "bool \<Rightarrow> access list \<Rightarrow> bool" where
  "locked_reads held [] = True"
| "locked_reads held (SpeakerLock # as) = locked_reads True as"
| "locked_reads held (SpeakerUnlock # as) = locked_reads False as"
| "locked_reads held (StreamerPosition # as) = (held \<and> locked_reads held as)"
| "locked_reads held (a # as) = locked_reads held as"

text \<open>
  Modelled from the spec: the per-buffer callback of the audio thread, which lives in the
  audio library (the \<open>beep.Ctrl\<close> played by the speaker), not in the repository. Section 3
  of the specification: the gate is read by the hardware callback before producing each
  buffer, and when paused the callback emits silence without advancing the position; the
  position of the source stays between 0 and the total frame count. Unpaused, a callback
  for a buffer of \<open>n\<close> frames consumes the next \<open>n\<close> frames of the source, or what is
  left of it.
\<close>

definition hw_callback :: "nat \<Rightarrow> audioState \<Rightarrow> audioState" where
  "hw_callback n w =
     (if Paused w then w else w\<lparr>position := min (len w) (position w + int n)\<rparr>)"


section \<open>Processes: output, exit status and start-up\<close>

text \<open>
  What a run of the program does to the outside, in order: lines printed to a stream
  (the texts are named by the statement that prints them), resources released, calls to
  the audio device and to the encoder. A Go panic that is not recovered runs the deferred
  calls, writes the panic message to standard error and ends the process with status 2.
\<close>

datatype init_error = OpenFailed go_error | DecodeFailed go_error | SpeakerInitFailed go_error

datatype stream = Stdout | Stderr

datatype message = ErrorInitializing init_error | AlasError go_error | PanicMessage go_error
  | RecordingBanner | StopDetected | WriteError go_error | CloseEncoderFailed go_error
  | RecordingDone string

datatype sys_event = Print stream message | FileClose | StreamerClose | SpeakerPlay | UIRun
  | CtxUninit | CtxFree | OutFileClose
  | DeviceStart | DeviceUninit | EncWrite "go_int list" | EncClose

record proc_result =
  events :: "sys_event list"
  exit_status :: int

definition go_panic :: "sys_event list \<Rightarrow> go_error \<Rightarrow> proc_result" where
  "go_panic deferred e =
     \<lparr>events = deferred @ [Print Stderr (PanicMessage e)], exit_status = 2\<rparr>"

text \<open>
  The outcomes of the calls that \<open>initialModel\<close> and \<open>runPlayer\<close> make to the operating
  system and the libraries: \<open>os.Open\<close>, \<open>wav.Decode\<close> (on success the length of the
  streamer and the sample rate of the format), \<open>speaker.Init\<close> (whose buffer size
  \<open>SampleRate.N(time.Second/10)\<close> is a function of the sample rate) and \<open>p.Run()\<close>.
\<close>

record player_env =
  os_Open :: "string \<Rightarrow> go_error option"
  wav_Decode :: "string \<Rightarrow> go_error + (int \<times> int)"
  speaker_Init :: "int \<Rightarrow> go_error option"
  tea_Run :: "go_error option"

text \<open>
  \<open>initialModel\<close>: the error or the model together with the audio state it points to, and
  the resources released or started on the way. \<open>done\<close> is made by \<open>make(chan bool)\<close>,
  a channel of capacity 0. The streamer that \<open>wav.Decode\<close> returns stands at position 0.
\<close>

definition initialModel :: "('p, 'f) lib \<Rightarrow> player_env \<Rightarrow> string
    \<Rightarrow> (init_error + (('p, 'f) model \<times> audioState)) \<times> sys_event list" where
  "initialModel L E fname =
     (case os_Open E fname of
        Some e \<Rightarrow> (Inl (OpenFailed e), [])
      | None \<Rightarrow>
         (case wav_Decode E fname of
            Inl e \<Rightarrow> (Inl (DecodeFailed e), [FileClose])
          | Inr (n, rate) \<Rightarrow>
             (case speaker_Init E rate of
                Some e \<Rightarrow> (Inl (SpeakerInitFailed e), [StreamerClose])
              | None \<Rightarrow>
                 (let ctrl_Paused = False;
                      done0 = make_chan 0;
                      dur = SampleRate_D L rate n;
                      prog = progress_New L
                  in (Inr (\<lparr>progress = prog, filename = fname, playing = True,
                              pct = float_zero L, err = None\<rparr>,
                           \<lparr>position = 0, len = n, sampleRate = rate, Paused = ctrl_Paused,
                            duration = dur, done_chan = done0, accesses = []\<rparr>),
                      [SpeakerPlay])))))"

text \<open>
  The callback that \<open>initialModel\<close> hands to \<open>beep.Callback\<close>: \<open>func() { done <- true }\<close>,
  a blocking send run by the audio thread.
\<close>

definition done_callback :: "audioState \<Rightarrow> audioState \<times> send_result" where
  "done_callback w = (case chan_send (done_chan w) True of (d, r) \<Rightarrow> (w\<lparr>done_chan := d\<rparr>, r))"

text \<open>
  \<open>runPlayer\<close>. \<open>fmt.Printf\<close> writes to standard output; \<open>m.Close()\<close> closes the
  streamer; a return from \<open>main\<close> is exit status 0.
\<close>

definition runPlayer :: "('p, 'f) lib \<Rightarrow> player_env \<Rightarrow> string \<Rightarrow> proc_result" where
  "runPlayer L E fname =
     (case initialModel L E fname of
        (Inl e, evs) \<Rightarrow>
          \<lparr>events = evs @ [Print Stdout (ErrorInitializing e)], exit_status = 1\<rparr>
      | (Inr (m, w), evs) \<Rightarrow>
          (case tea_Run E of
             Some e \<Rightarrow>
               \<lparr>events = evs @ [UIRun, StreamerClose, Print Stdout (AlasError e)], exit_status = 1\<rparr>
           | None \<Rightarrow> \<lparr>events = evs @ [UIRun, StreamerClose], exit_status = 0\<rparr>))"



section \<open>Capture: the relay and the consumer of runRecord\<close>

text \<open>
  The \<open>Data\<close> callback of the capture device, run by the hardware thread: it copies the
  input samples and offers the copy to \<open>audioChan\<close> in a \<open>select\<close> with an empty
  \<open>default\<close>. A list is a value, so the copy is the list itself.
\<close>

definition Data_callback :: "byte list chan \<Rightarrow> byte list \<Rightarrow> byte list chan" where
  "Data_callback audioChan pInputSamples =
     (let dataCopy = pInputSamples in fst (chan_try_send audioChan dataCopy))"

datatype os_signal = Interrupt | SIGTERM

text \<open>
  Where the goroutine of \<open>runRecord\<close> stands: in the receive loop, after the
  \<open>break Loop\<close>, after \<open>device.Uninit()\<close>, returned, or ended by a panic.
\<close>

datatype pc = InLoop | AfterLoop | DeviceStopped | Finished | Panicked

record rec_state =
  outputName :: string
  audioChan :: "byte list chan"
  sigChan :: "os_signal chan"
  at :: pc
  device_running :: bool
  trace :: "sys_event list"

text \<open>
  The outcomes of the calls made before the loop: \<open>malgo.InitContext\<close>,
  \<open>malgo.InitDevice\<close>, \<open>os.Create\<close> and \<open>device.Start\<close>.
\<close>

record recorder_env =
  malgo_InitContext :: "go_error option"
  malgo_InitDevice :: "go_error option"
  os_Create :: "string \<Rightarrow> go_error option"
  device_Start :: "go_error option"

text \<open>
  \<open>runRecord\<close> up to the loop (lines 24 to 88): each failure is a \<open>panic(err)\<close>, which
  runs the calls deferred so far; on success the device runs, the banner is printed and
  both channels are empty.
\<close>

definition runRecord_start :: "recorder_env \<Rightarrow> string \<Rightarrow> proc_result + rec_state" where
  "runRecord_start E name =
     (case malgo_InitContext E of
        Some e \<Rightarrow> Inl (go_panic [] e)
      | None \<Rightarrow>
         (case malgo_InitDevice E of
            Some e \<Rightarrow> Inl (go_panic [CtxUninit, CtxFree] e)
          | None \<Rightarrow>
             (case os_Create E name of
                Some e \<Rightarrow> Inl (go_panic [CtxUninit, CtxFree] e)
              | None \<Rightarrow>
                 (case device_Start E of
                    Some e \<Rightarrow> Inl (go_panic [OutFileClose, CtxUninit, CtxFree] e)
                  | None \<Rightarrow>
                      Inr \<lparr>outputName = name, audioChan = make_chan 1024,
                           sigChan = make_chan 1, at = InLoop, device_running = True,
                           trace = [DeviceStart, Print Stdout RecordingBanner]\<rparr>))))"

text \<open>
  The hardware thread, the operating system and the goroutine of \<open>runRecord\<close> run
  concurrently; a schedule lists, in the order they happen:
  \<^item> \<open>HwData f\<close>: the device invokes the \<open>Data\<close> callback with the samples \<open>f\<close>;
  \<^item> \<open>Signal sg\<close>: a signal arrives; \<open>signal.Notify\<close> offers it to \<open>sigChan\<close> without
    blocking;
  \<^item> \<open>SelectSig\<close>: the \<open>select\<close> of the loop takes \<open>case <-sigChan\<close> and breaks;
  \<^item> \<open>SelectData r\<close>: the \<open>select\<close> takes \<open>case data := <-audioChan\<close>, converts the
    frame and calls \<open>encoder.Write\<close>, which returns \<open>r\<close>;
  \<^item> \<open>DoUninit\<close>: \<open>device.Uninit()\<close> (line 125);
  \<^item> \<open>DoClose r\<close>: \<open>encoder.Close()\<close>, which returns \<open>r\<close>, the last message, and the
    deferred calls at the return (lines 128 to 133).
  \<open>step\<close> is \<open>None\<close> when the event cannot happen in the state: the device delivers
  frames only while it runs, a \<open>select\<close> case is taken only when its channel has a value
  ready, and the goroutine executes its statements in program order. When both channels
  are ready Go chooses either case, so both events are enabled.
\<close>

datatype rec_event = HwData "byte list" | Signal os_signal | SelectSig
  | SelectData "go_error option" | DoUninit | DoClose "go_error option"

fun step :: "rec_state \<Rightarrow> rec_event \<Rightarrow> rec_state option" where
  "step s (HwData f) =
     (if device_running s then Some (s\<lparr>audioChan := Data_callback (audioChan s) f\<rparr>) else None)"
| "step s (Signal sg) = Some (s\<lparr>sigChan := fst (chan_try_send (sigChan s) sg)\<rparr>)"
| "step s SelectSig =
     (if at s = InLoop then
        (case chan_try_recv (sigChan s) of
           (Some sg, c) \<Rightarrow>
             Some (s\<lparr>sigChan := c, at := AfterLoop, trace := trace s @ [Print Stdout StopDetected]\<rparr>)
         | (None, c) \<Rightarrow> None)
      else None)"
| "step s (SelectData r) =
     (if at s = InLoop then
        (case chan_try_recv (audioChan s) of
           (Some data, c) \<Rightarrow>
             (case bytes_to_ints data of
                None \<Rightarrow>
                  Some (s\<lparr>audioChan := c, at := Panicked, device_running := False,
                          trace := trace s @ [OutFileClose, CtxUninit, CtxFree,
                                              Print Stderr (PanicMessage ''slice bounds out of range'')]\<rparr>)
              | Some intData \<Rightarrow>
                  Some (s\<lparr>audioChan := c,
                          trace := trace s @ [EncWrite intData] @
                            (case r of None \<Rightarrow> [] | Some e \<Rightarrow> [Print Stdout (WriteError e)])\<rparr>))
         | (None, c) \<Rightarrow> None)
      else None)"
| "step s DoUninit =
     (if at s = AfterLoop then
        Some (s\<lparr>at := DeviceStopped, device_running := False, trace := trace s @ [DeviceUninit]\<rparr>)
      else None)"
| "step s (DoClose r) =
     (if at s = DeviceStopped then
        Some (s\<lparr>at := Finished,
                trace := trace s @ [EncClose] @
                  (case r of None \<Rightarrow> [] | Some e \<Rightarrow> [Print Stdout (CloseEncoderFailed e)]) @
                  [Print Stdout (RecordingDone (outputName s)), OutFileClose, CtxUninit, CtxFree]\<rparr>)
      else None)"

fun exec :: "rec_state \<Rightarrow> rec_event list \<Rightarrow> rec_state option" where
  "exec s [] = Some s"
| "exec s (e # es) = (case step s e of None \<Rightarrow> None | Some s' \<Rightarrow> exec s' es)"

text \<open>The frames the device produced in a schedule, in order.\<close>

fun produced :: "rec_event list \<Rightarrow> byte list list" where
  "produced [] = []"
| "produced (HwData f # es) = f # produced es"
| "produced (e # es) = produced es"

text \<open>
  The frames of a schedule that the capture queue accepted: those produced while the
  queue had room.
\<close>

fun accepted :: "rec_state \<Rightarrow> rec_event list \<Rightarrow> byte list list" where
  "accepted s [] = []"
| "accepted s (e # es) =
     (case step s e of
        None \<Rightarrow> []
      | Some s' \<Rightarrow>
          (case e of
             HwData f \<Rightarrow>
               (if length (buf (audioChan s)) < cap (audioChan s) then [f] else [])
           | _ \<Rightarrow> []) @ accepted s' es)"

text \<open>The buffers handed to \<open>encoder.Write\<close> in a trace, in order.\<close>

fun writes :: "sys_event list \<Rightarrow> go_int list list" where
  "writes [] = []"
| "writes (EncWrite d # es) = d # writes es"
| "writes (e # es) = writes es"

text \<open>The calls to the capture device and to the encoder in a trace, in order.\<close>

fun is_call :: "sys_event \<Rightarrow> bool" where
  "is_call DeviceStart = True"
| "is_call DeviceUninit = True"
| "is_call (EncWrite d) = True"
| "is_call EncClose = True"
| "is_call e = False"

text \<open>The samples of a frame: what the conversion loop yields on it.\<close>

definition samples_of :: "byte list \<Rightarrow> go_int list" where
  "samples_of data = map (sample_at data) [0..<length data div 2]"

text \<open>The calls of the shutdown sequence made so far at each point of the goroutine.\<close>

fun finalization :: "pc \<Rightarrow> sys_event list" where
  "finalization DeviceStopped = [DeviceUninit]"
| "finalization Finished = [DeviceUninit, EncClose]"
| "finalization p = []"

text \<open>
  The state of the capture queue that every run keeps: no sender is parked on it and it
  holds no more frames than its capacity.
\<close>

definition relay_ok :: "rec_state \<Rightarrow> bool" where
  "relay_ok s \<longleftrightarrow> sendq (audioChan s) = [] \<and> length (buf (audioChan s)) \<le> cap (audioChan s)"

text \<open>
  The shape of the calls made so far: the start of the device, the writes, then the part
  of the shutdown sequence that belongs to the point the goroutine has reached; the device
  runs exactly until \<open>device.Uninit()\<close>, and the goroutine has not panicked.
\<close>

definition shutdown_inv :: "rec_state \<Rightarrow> bool" where
  "shutdown_inv s \<longleftrightarrow>
     filter is_call (trace s) =
       DeviceStart # map EncWrite (writes (trace s)) @ finalization (at s) \<and>
     (device_running s \<longleftrightarrow> at s = InLoop \<or> at s = AfterLoop) \<and>
     at s \<noteq> Panicked"



section \<open>Concrete inputs\<close>

text \<open>
  An instance of the library operations (a ratio kept as the pair of its terms), an
  environment in which a three-second file at 44100 Hz opens and decodes, and the model
  and audio state that \<open>initialModel\<close> builds from them.
\<close>

definition lib0 :: "(unit, int \<times> int) lib" where
  "lib0 = \<lparr>float_ratio = Pair, float_zero = (0, 1),
           SetPercent = (\<lambda>p f. (p, FrameCmd 0)),
           progress_Update = (\<lambda>p n. (p, NilCmd)),
           progress_View = (\<lambda>p. ''bar''),
           progress_New = \<lparr>Width = 40, rest = ()\<rparr>,
           SampleRate_D = (\<lambda>rate n. n * 1000000000 div rate),
           Round_Second = (\<lambda>d. d)\<rparr>"

definition env0 :: player_env where
  "env0 = \<lparr>os_Open = (\<lambda>f. None), wav_Decode = (\<lambda>f. Inr (132300, 44100)),
           speaker_Init = (\<lambda>r. None), tea_Run = None\<rparr>"

definition model0 :: "(unit, int \<times> int) model" where
  "model0 = \<lparr>progress = \<lparr>Width = 40, rest = ()\<rparr>, filename = ''a.wav'', playing = True,
             pct = (0, 1), err = None\<rparr>"

definition audio0 :: audioState where
  "audio0 = \<lparr>position = 0, len = 132300, sampleRate = 44100, Paused = False,
             duration = 3000000000, done_chan = \<lparr>cap = 0, buf = [], sendq = []\<rparr>,
             accesses = []\<rparr>"

text \<open>
  Audio states of the same file later in the playback: one second in; one second in with
  the gate paused; with the completion callback parked on \<open>done\<close>; and a file of
  length 0.
\<close>

definition audio_1s :: audioState where
  "audio_1s = audio0\<lparr>position := 44100\<rparr>"

definition audio_paused :: audioState where
  "audio_paused = audio0\<lparr>position := 44100, Paused := True\<rparr>"

definition audio_done :: audioState where
  "audio_done = audio0\<lparr>position := 132300,
                        done_chan := \<lparr>cap = 0, buf = [], sendq = [True]\<rparr>\<rparr>"

definition audio_empty :: audioState where
  "audio_empty = audio0\<lparr>len := 0\<rparr>"

text \<open>An environment in which the file cannot be opened.\<close>

definition env_missing :: player_env where
  "env_missing = \<lparr>os_Open = (\<lambda>f. Some ''no such file''), wav_Decode = (\<lambda>f. Inr (0, 44100)),
                  speaker_Init = (\<lambda>r. None), tea_Run = None\<rparr>"

text \<open>Recorder environments: every call succeeds; the capture device cannot be opened.\<close>

definition renv0 :: recorder_env where
  "renv0 = \<lparr>malgo_InitContext = None, malgo_InitDevice = None, os_Create = (\<lambda>f. None),
            device_Start = None\<rparr>"

definition renv_nodevice :: recorder_env where
  "renv_nodevice = \<lparr>malgo_InitContext = None, malgo_InitDevice = Some ''no capture device'',
                    os_Create = (\<lambda>f. None), device_Start = None\<rparr>"

definition rec0 :: rec_state where
  "rec0 = \<lparr>outputName = ''out.wav'', audioChan = \<lparr>cap = 1024, buf = [], sendq = []\<rparr>,
           sigChan = \<lparr>cap = 1, buf = [], sendq = []\<rparr>, at = InLoop, device_running = True,
           trace = [DeviceStart, Print Stdout RecordingBanner]\<rparr>"



section \<open>Lemmas\<close>

subsection \<open>Little-endian samples\<close>

lemma le16_cat:
  "((ucast (b0::byte)) OR (push_bit 8 (ucast (b1::byte))) :: uint16) = word_cat b1 b0"
  by (simp add: word_cat_eq_push_bit_or or.commute)

lemma uint_byte_bound: "uint (b::byte) < 256" "0 \<le> uint b"
  using uint_bounded[of b] by simp_all

lemma le16_uint:
  "uint ((ucast (b0::byte)) OR (push_bit 8 (ucast (b1::byte))) :: uint16) = uint b0 + 256 * uint b1"
proof -
  have u0: "uint (ucast b0 :: uint16) = uint b0"
    by (simp add: uint_up_ucast is_up)
  have u1: "uint (ucast b1 :: uint16) = uint b1"
    by (simp add: uint_up_ucast is_up)
  have p: "uint (push_bit 8 (ucast b1 :: uint16)) = 256 * uint b1"
    using uint_byte_bound[of b1]
    by (simp add: push_bit_eq_mult uint_word_ariths u1)
  have "uint (word_cat b1 b0 :: uint16) = (256 * uint b1 + uint b0) mod 2 ^ 16"
    by (simp add: word_cat_eq uint_word_ariths p u0)
  also have "\<dots> = 256 * uint b1 + uint b0"
    using uint_byte_bound[of b0] uint_byte_bound[of b1] by simp
  finally show ?thesis by (simp add: le16_cat)
qed

lemma sint_widen: "sint (scast (u::uint16) :: go_int) = sint u"
  by (simp add: sint_up_scast is_up)

lemma sint_uint16: "sint (u :: uint16) = (if uint u < 32768 then uint u else uint u - 65536)"
proof -
  have b: "0 \<le> uint u" "uint u < 65536"
    using uint_bounded[of u] by simp_all
  have s: "sint u = (uint u + 32768) mod 65536 - 32768"
    by (simp add: sint_uint signed_take_bit_eq_take_bit_shift take_bit_eq_mod)
  show ?thesis
  proof (cases "uint u < 32768")
    case True
    with b s show ?thesis by simp
  next
    case False
    have e: "uint u + 32768 = (uint u - 32768) + 65536"
      by arith
    have "(uint u + 32768) mod 65536 = ((uint u - 32768) + 65536) mod 65536"
      by (simp only: e)
    also have "\<dots> = (uint u - 32768) mod 65536"
      by (rule mod_add_self2)
    also have "\<dots> = uint u - 32768"
      using False b by simp
    finally show ?thesis using False s by simp
  qed
qed

lemma sint_sample_at: "sint (sample_at data j) = int16_value (data ! (j * 2)) (data ! (j * 2 + 1))"
  by (simp add: sample_at_def int16_value_def sint_widen sint_uint16 le16_uint Let_def)

lemma slice_go_pair:
  "i * 2 + 2 \<le> length data \<Longrightarrow>
   slice_go data (i * 2) (i * 2 + 2) = Some [data ! (i * 2), data ! (i * 2 + 1)]"
proof -
  assume a: "i * 2 + 2 \<le> length data"
  then have "take 2 (drop (i * 2) data) = [drop (i * 2) data ! 0, drop (i * 2) data ! 1]"
    by (intro nth_equalityI) (auto simp: less_Suc_eq numeral_2_eq_2)
  with a show ?thesis
    by (simp add: slice_go_def)
qed

lemma convert_loop_eq:
  "length intData = length data div 2 \<Longrightarrow>
   convert_loop data i intData =
     Some (take i intData @ map (sample_at data) [i..<length intData])"
proof (induction data i intData rule: convert_loop.induct)
  case (1 data i intData)
  show ?case
  proof (cases "i < length intData")
    case False
    then show ?thesis by (simp add: convert_loop.simps)
  next
    case True
    with "1.prems" have le: "i * 2 + 2 \<le> length data" by arith
    let ?v = "sample_at data i"
    have sl: "slice_go data (i * 2) (i * 2 + 2) = Some [data ! (i * 2), data ! (i * 2 + 1)]"
      by (rule slice_go_pair [OF le])
    have u: "Uint16 [data ! (i * 2), data ! (i * 2 + 1)]
               = Some (ucast (data ! (i * 2)) OR push_bit 8 (ucast (data ! (i * 2 + 1))))"
      by (simp add: Uint16_def)
    have ih: "convert_loop data (i + 1) (intData[i := ?v]) =
                Some (take (i + 1) (intData[i := ?v]) @ map (sample_at data) [i + 1..<length intData])"
      using "1.IH" [OF True sl u] "1.prems" by (simp add: sample_at_def)
    have t: "take (i + 1) (intData[i := ?v]) = take i intData @ [?v]"
      using True by (simp add: take_Suc_conv_app_nth)
    have "convert_loop data i intData = convert_loop data (i + 1) (intData[i := ?v])"
      using True sl u by (subst convert_loop.simps) (simp add: sample_at_def)
    with ih t True show ?thesis
      by (simp add: upt_conv_Cons)
  qed
qed

lemma bytes_to_ints_eq:
  "bytes_to_ints data = Some (map (sample_at data) [0..<length data div 2])"
  by (simp add: bytes_to_ints_def convert_loop_eq)



subsection \<open>Playback\<close>

lemma chan_try_recv_None: "fst (chan_try_recv c) = None \<Longrightarrow> snd (chan_try_recv c) = c"
  by (auto simp: chan_try_recv_def split: list.splits)

lemma initialModel0: "initialModel lib0 env0 ''a.wav'' = (Inr (model0, audio0), [SpeakerPlay])"
  by (simp add: initialModel_def lib0_def env0_def model0_def audio0_def make_chan_def)

lemma View_accesses:
  "err m = None \<Longrightarrow> accesses (snd (View L w m)) = accesses w @ [StreamerPosition]"
  by (simp add: View_def touch_def Let_def)

lemma Update_tick:
  "Update L w m tickMsg =
    (if fst (chan_try_recv (done_chan w)) \<noteq> None then
       (w\<lparr>done_chan := snd (chan_try_recv (done_chan w)),
          accesses := accesses w @ [TryRecvDone]\<rparr>, m, Quit)
     else if Paused w then
       (w\<lparr>accesses := accesses w @ [TryRecvDone, ReadPaused]\<rparr>, m, tickCmd)
     else
       (w\<lparr>accesses := accesses w @
            [TryRecvDone, ReadPaused, SpeakerLock, StreamerPosition, SpeakerUnlock, StreamerLen]\<rparr>,
        m\<lparr>pct := (if len w > 0 then float_ratio L (position w) (len w) else pct m),
          progress := fst (SetPercent L (progress m)
                             (if len w > 0 then float_ratio L (position w) (len w) else pct m))\<rparr>,
        Batch [snd (SetPercent L (progress m)
                      (if len w > 0 then float_ratio L (position w) (len w) else pct m)), tickCmd]))"
  apply (cases "chan_try_recv (done_chan w)")
  subgoal for v d
    apply (cases v)
    using chan_try_recv_None[of "done_chan w"]
     apply (simp_all add: Update_def touch_def Let_def split: prod.splits)
    done
  done

lemma Update_tick_reads_locked:
  "accesses w = [] \<Longrightarrow> locked_reads False (accesses (fst (Update L w m tickMsg)))"
  by (simp add: Update_tick)


lemma chan_try_recv_ready:
  "fst (chan_try_recv c) \<noteq> None \<longleftrightarrow> buf c \<noteq> [] \<or> sendq c \<noteq> []"
  by (auto simp: chan_try_recv_def split: list.splits)

lemma chan_try_recv_oldest:
  "fst (chan_try_recv c) = (case buf c @ sendq c of [] \<Rightarrow> None | x # xs \<Rightarrow> Some x)"
  by (auto simp: chan_try_recv_def split: list.splits)

lemma chan_try_recv_rest:
  "buf (snd (chan_try_recv c)) @ sendq (snd (chan_try_recv c)) = tl (buf c @ sendq c)"
  by (auto simp: chan_try_recv_def split: list.splits)

lemma hw_callbacks_paused: "Paused w \<Longrightarrow> fold hw_callback ns w = w"
  by (induction ns) (simp_all add: hw_callback_def)

lemma hw_callbacks_Paused: "Paused (fold hw_callback ns w) = Paused w"
  by (induction ns arbitrary: w) (simp_all add: hw_callback_def)

lemma Update_space:
  "Update L w m (KeyMsg '' '') =
     (w\<lparr>Paused := \<not> Paused w,
        accesses := accesses w @ [ReadPaused, WritePaused, ReadPaused]\<rparr>,
      m\<lparr>playing := Paused w\<rparr>, NilCmd)"
  by (simp add: Update_def touch_def Let_def)


subsection \<open>Start-up\<close>

lemma initialModel_fails_iff:
  "(\<exists>e. fst (initialModel L E fname) = Inl e) \<longleftrightarrow>
     (os_Open E fname \<noteq> None \<or> (\<exists>x. wav_Decode E fname = Inl x) \<or>
      (\<exists>n rate. wav_Decode E fname = Inr (n, rate) \<and> speaker_Init E rate \<noteq> None))"
  by (auto simp: initialModel_def Let_def split: option.splits sum.splits prod.splits)

lemma runRecord_start_fails_iff:
  "(\<exists>r. runRecord_start E name = Inl r) \<longleftrightarrow>
     (malgo_InitContext E \<noteq> None \<or> malgo_InitDevice E \<noteq> None \<or> os_Create E name \<noteq> None \<or>
      device_Start E \<noteq> None)"
  by (auto simp: runRecord_start_def split: option.splits)

lemma initialModel_no_UIRun: "UIRun \<notin> set (snd (initialModel L E fname))"
  by (auto simp: initialModel_def Let_def split: option.splits sum.splits prod.splits)


subsection \<open>Capture\<close>

lemma writes_append: "writes (xs @ ys) = writes xs @ writes ys"
  by (induction xs rule: writes.induct) simp_all

lemma bytes_to_ints_samples: "bytes_to_ints data = Some (samples_of data)"
  by (simp add: bytes_to_ints_eq samples_of_def)

lemma Data_callback_eq:
  "Data_callback c f = (if length (buf c) < cap c then c\<lparr>buf := buf c @ [f]\<rparr> else c)"
  by (simp add: Data_callback_def chan_try_send_def)

lemma chan_try_recv_plain:
  "sendq c = [] \<Longrightarrow>
   chan_try_recv c = (case buf c of [] \<Rightarrow> (None, c) | x # xs \<Rightarrow> (Some x, c\<lparr>buf := xs\<rparr>))"
  by (simp add: chan_try_recv_def split: list.splits)

lemma step_relay_ok: "relay_ok s \<Longrightarrow> step s e = Some s' \<Longrightarrow> relay_ok s' \<and> cap (audioChan s') = cap (audioChan s)"
  by (cases e)
     (auto simp: relay_ok_def Data_callback_eq chan_try_recv_plain bytes_to_ints_samples
           split: if_splits list.splits prod.splits option.splits)

lemma step_fifo:
  "relay_ok s \<Longrightarrow> step s e = Some s' \<Longrightarrow>
   writes (trace s') @ map samples_of (buf (audioChan s')) =
   writes (trace s) @ map samples_of (buf (audioChan s) @ accepted s [e])"
  by (cases e)
     (auto simp: relay_ok_def Data_callback_eq chan_try_recv_plain bytes_to_ints_samples writes_append
           split: if_splits list.splits prod.splits option.splits)

lemma exec_fifo:
  "relay_ok s \<Longrightarrow> exec s evs = Some s' \<Longrightarrow>
   writes (trace s') @ map samples_of (buf (audioChan s')) =
   writes (trace s) @ map samples_of (buf (audioChan s) @ accepted s evs)"
proof (induction evs arbitrary: s)
  case Nil
  then show ?case by simp
next
  case (Cons e es)
  from Cons.prems(2) obtain t where t: "step s e = Some t" and r: "exec t es = Some s'"
    by (auto split: option.splits)
  from step_relay_ok [OF Cons.prems(1) t] have ok: "relay_ok t" by simp
  have "writes (trace s') @ map samples_of (buf (audioChan s')) =
        writes (trace t) @ map samples_of (buf (audioChan t) @ accepted t es)"
    by (rule Cons.IH [OF ok r])
  also have "\<dots> = (writes (trace t) @ map samples_of (buf (audioChan t))) @ map samples_of (accepted t es)"
    by simp
  also have "\<dots> = (writes (trace s) @ map samples_of (buf (audioChan s) @ accepted s [e])) @ map samples_of (accepted t es)"
    by (simp only: step_fifo [OF Cons.prems(1) t])
  also have "\<dots> = writes (trace s) @ map samples_of (buf (audioChan s) @ accepted s (e # es))"
    by (simp add: t)
  finally show ?case .
qed

lemma exec_relay_ok:
  "relay_ok s \<Longrightarrow> exec s evs = Some s' \<Longrightarrow> relay_ok s' \<and> cap (audioChan s') = cap (audioChan s)"
proof (induction evs arbitrary: s)
  case Nil
  then show ?case by simp
next
  case (Cons e es)
  from Cons.prems(2) obtain t where t: "step s e = Some t" and r: "exec t es = Some s'"
    by (auto split: option.splits)
  from step_relay_ok [OF Cons.prems(1) t] Cons.IH [OF _ r] show ?case by simp
qed

lemma accepted_subseq: "subseq (accepted s evs) (produced evs)"
proof (induction evs arbitrary: s)
  case Nil
  then show ?case by simp
next
  case (Cons e es)
  show ?case
  proof (cases "step s e")
    case None
    then show ?thesis by simp
  next
    case (Some t)
    with Cons.IH [of t] show ?thesis
      by (cases e) (auto simp: subseq_Cons')
  qed
qed

lemma runRecord_start_Inr:
  "runRecord_start E name = Inr s0 \<Longrightarrow>
   s0 = \<lparr>outputName = name, audioChan = make_chan 1024, sigChan = make_chan 1, at = InLoop,
         device_running = True, trace = [DeviceStart, Print Stdout RecordingBanner]\<rparr>"
  by (auto simp: runRecord_start_def split: option.splits)

lemma start_relay_ok:
  "runRecord_start E name = Inr s0 \<Longrightarrow>
   relay_ok s0 \<and> cap (audioChan s0) = 1024 \<and> buf (audioChan s0) = [] \<and> writes (trace s0) = []"
  by (auto dest!: runRecord_start_Inr simp: relay_ok_def make_chan_def)

text \<open>Frames delivered with no consumer step in between: the queue keeps the oldest.\<close>

lemma exec_HwData_burst:
  "device_running s \<Longrightarrow> relay_ok s \<Longrightarrow>
   \<exists>s'. exec s (map HwData fs) = Some s' \<and>
        buf (audioChan s') = take (cap (audioChan s)) (buf (audioChan s) @ fs) \<and>
        trace s' = trace s"
proof (induction fs arbitrary: s)
  case Nil
  then show ?case by (simp add: relay_ok_def)
next
  case (Cons f fs)
  let ?t = "s\<lparr>audioChan := Data_callback (audioChan s) f\<rparr>"
  have st: "step s (HwData f) = Some ?t"
    using Cons.prems(1) by simp
  have run: "device_running ?t" using Cons.prems(1) by simp
  have ok: "relay_ok ?t" using step_relay_ok [OF Cons.prems(2) st] by simp
  from Cons.IH [OF run ok] obtain s' where
    e: "exec ?t (map HwData fs) = Some s'" and
    b: "buf (audioChan s') = take (cap (audioChan ?t)) (buf (audioChan ?t) @ fs)" and
    tr: "trace s' = trace ?t"
    by blast
  have "take (cap (audioChan ?t)) (buf (audioChan ?t) @ fs) =
        take (cap (audioChan s)) (buf (audioChan s) @ f # fs)"
    using Cons.prems(2) by (auto simp: Data_callback_eq relay_ok_def take_Cons')
  with e b tr st show ?case by simp
qed

lemma step_after_loop:
  "at s \<noteq> InLoop \<Longrightarrow> step s e = Some s' \<Longrightarrow>
   at s' \<noteq> InLoop \<and> writes (trace s') = writes (trace s)"
  by (cases e) (auto simp: writes_append split: if_splits option.splits)

lemma exec_after_loop:
  "at s \<noteq> InLoop \<Longrightarrow> exec s evs = Some s' \<Longrightarrow>
   at s' \<noteq> InLoop \<and> writes (trace s') = writes (trace s)"
proof (induction evs arbitrary: s)
  case Nil
  then show ?case by simp
next
  case (Cons e es)
  from Cons.prems(2) obtain t where t: "step s e = Some t" and r: "exec t es = Some s'"
    by (auto split: option.splits)
  from step_after_loop [OF Cons.prems(1) t] Cons.IH [OF _ r] show ?case by simp
qed

lemma step_SelectSig:
  "step s SelectSig = Some s' \<Longrightarrow>
   at s = InLoop \<and> at s' = AfterLoop \<and> audioChan s' = audioChan s \<and>
   writes (trace s') = writes (trace s)"
  by (auto simp: writes_append split: if_splits option.splits prod.splits)

lemma step_shutdown_inv: "shutdown_inv s \<Longrightarrow> step s e = Some s' \<Longrightarrow> shutdown_inv s'"
  by (cases e)
     (auto simp: shutdown_inv_def writes_append bytes_to_ints_samples
           split: if_splits option.splits prod.splits)

lemma exec_shutdown_inv: "shutdown_inv s \<Longrightarrow> exec s evs = Some s' \<Longrightarrow> shutdown_inv s'"
proof (induction evs arbitrary: s)
  case Nil
  then show ?case by simp
next
  case (Cons e es)
  from Cons.prems(2) obtain t where t: "step s e = Some t" and r: "exec t es = Some s'"
    by (auto split: option.splits)
  from Cons.IH [OF step_shutdown_inv [OF Cons.prems(1) t] r] show ?case .
qed

lemma start_shutdown_inv: "runRecord_start E name = Inr s0 \<Longrightarrow> shutdown_inv s0"
  by (auto dest!: runRecord_start_Inr simp: shutdown_inv_def)

lemma count_list_calls: "is_call x \<Longrightarrow> count_list (filter is_call xs) x = count_list xs x"
  by (induction xs) auto

lemma count_list_EncWrite: "count_list (map EncWrite ws) EncClose = 0"
  by (induction ws) simp_all


subsection \<open>Concrete runs\<close>

lemma rec0_start: "runRecord_start renv0 ''out.wav'' = Inr rec0"
  by (simp add: runRecord_start_def renv0_def rec0_def make_chan_def)


text \<open>
  C1. On a tick the update function first polls the completion channel without blocking.
  If the signal has fired, that is if a value is buffered on the channel or a sender is
  parked on it, the poll takes the oldest value and the function returns the quit command,
  with the model unchanged and with no access to the pause flag, the lock or the streamer.
  Otherwise it reads the pause flag and, if the gate is paused, only re-arms the tick,
  leaving the model unchanged and never reading the position. Otherwise it reads the
  position between \<open>speaker.Lock()\<close> and \<open>speaker.Unlock()\<close>, reads the length, sets
  \<open>pct\<close> to position/length when the length is positive and leaves it unchanged otherwise
  (so never divides by zero), passes \<open>pct\<close> to the progress bar and returns the batch of
  the bar's command and the next tick. The access log shows the order of the steps.
\<close>

theorem Update_tick_precedence:
  "Update L w m tickMsg =
    (if buf (done_chan w) \<noteq> [] \<or> sendq (done_chan w) \<noteq> [] then
       (w\<lparr>done_chan := snd (chan_try_recv (done_chan w)),
          accesses := accesses w @ [TryRecvDone]\<rparr>, m, Quit)
     else if Paused w then
       (w\<lparr>accesses := accesses w @ [TryRecvDone, ReadPaused]\<rparr>, m, tickCmd)
     else
       (w\<lparr>accesses := accesses w @
            [TryRecvDone, ReadPaused, SpeakerLock, StreamerPosition, SpeakerUnlock, StreamerLen]\<rparr>,
        m\<lparr>pct := (if len w > 0 then float_ratio L (position w) (len w) else pct m),
          progress := fst (SetPercent L (progress m)
                             (if len w > 0 then float_ratio L (position w) (len w) else pct m))\<rparr>,
        Batch [snd (SetPercent L (progress m)
                      (if len w > 0 then float_ratio L (position w) (len w) else pct m)), tickCmd])) \<and>
   fst (chan_try_recv (done_chan w)) =
     (case buf (done_chan w) @ sendq (done_chan w) of [] \<Rightarrow> None | x # xs \<Rightarrow> Some x) \<and>
   buf (snd (chan_try_recv (done_chan w))) @ sendq (snd (chan_try_recv (done_chan w))) =
     tl (buf (done_chan w) @ sendq (done_chan w))"
proof -
  have "Update L w m tickMsg =
    (if buf (done_chan w) \<noteq> [] \<or> sendq (done_chan w) \<noteq> [] then
       (w\<lparr>done_chan := snd (chan_try_recv (done_chan w)),
          accesses := accesses w @ [TryRecvDone]\<rparr>, m, Quit)
     else if Paused w then
       (w\<lparr>accesses := accesses w @ [TryRecvDone, ReadPaused]\<rparr>, m, tickCmd)
     else
       (w\<lparr>accesses := accesses w @
            [TryRecvDone, ReadPaused, SpeakerLock, StreamerPosition, SpeakerUnlock, StreamerLen]\<rparr>,
        m\<lparr>pct := (if len w > 0 then float_ratio L (position w) (len w) else pct m),
          progress := fst (SetPercent L (progress m)
                             (if len w > 0 then float_ratio L (position w) (len w) else pct m))\<rparr>,
        Batch [snd (SetPercent L (progress m)
                      (if len w > 0 then float_ratio L (position w) (len w) else pct m)), tickCmd]))"
    unfolding chan_try_recv_ready [symmetric] by (rule Update_tick)
  then show ?thesis
    using chan_try_recv_oldest [of "done_chan w"] chan_try_recv_rest [of "done_chan w"]
    by blast
qed

text \<open>
  The four outcomes on concrete states: a parked completion callback gives the quit
  command and releases the sender; a paused gate one second in gives only the next tick;
  a running gate one second in gives \<open>pct\<close> = 44100/132300 and the batch; a file of length 0
  leaves \<open>pct\<close> at its old value.
\<close>

theorem Update_tick_precedence_witness:
  "Update lib0 audio_done model0 tickMsg =
     (audio_done\<lparr>done_chan := \<lparr>cap = 0, buf = [], sendq = []\<rparr>, accesses := [TryRecvDone]\<rparr>,
      model0, Quit) \<and>
   Update lib0 audio_paused model0 tickMsg =
     (audio_paused\<lparr>accesses := [TryRecvDone, ReadPaused]\<rparr>, model0, tickCmd) \<and>
   Update lib0 audio_1s model0 tickMsg =
     (audio_1s\<lparr>accesses := [TryRecvDone, ReadPaused, SpeakerLock, StreamerPosition,
                               SpeakerUnlock, StreamerLen]\<rparr>,
      model0\<lparr>pct := (44100, 132300)\<rparr>, Batch [FrameCmd 0, tickCmd]) \<and>
   Update lib0 audio_empty model0 tickMsg =
     (audio_empty\<lparr>accesses := [TryRecvDone, ReadPaused, SpeakerLock, StreamerPosition,
                                  SpeakerUnlock, StreamerLen]\<rparr>,
      model0, Batch [FrameCmd 0, tickCmd])"
proof -
  have d: "Update lib0 audio_done model0 tickMsg =
     (audio_done\<lparr>done_chan := \<lparr>cap = 0, buf = [], sendq = []\<rparr>, accesses := [TryRecvDone]\<rparr>,
      model0, Quit)"
    using Update_tick_precedence [of lib0 audio_done model0]
    by (simp add: audio_done_def audio0_def chan_try_recv_def)
  have p: "Update lib0 audio_paused model0 tickMsg =
     (audio_paused\<lparr>accesses := [TryRecvDone, ReadPaused]\<rparr>, model0, tickCmd)"
    using Update_tick_precedence [of lib0 audio_paused model0]
    by (simp add: audio_paused_def audio0_def)
  have r: "Update lib0 audio_1s model0 tickMsg =
     (audio_1s\<lparr>accesses := [TryRecvDone, ReadPaused, SpeakerLock, StreamerPosition,
                               SpeakerUnlock, StreamerLen]\<rparr>,
      model0\<lparr>pct := (44100, 132300)\<rparr>, Batch [FrameCmd 0, tickCmd])"
    using Update_tick_precedence [of lib0 audio_1s model0]
    by (simp add: audio_1s_def audio0_def model0_def lib0_def)
  have z: "Update lib0 audio_empty model0 tickMsg =
     (audio_empty\<lparr>accesses := [TryRecvDone, ReadPaused, SpeakerLock, StreamerPosition,
                                  SpeakerUnlock, StreamerLen]\<rparr>,
      model0, Batch [FrameCmd 0, tickCmd])"
    using Update_tick_precedence [of lib0 audio_empty model0]
    by (simp add: audio_empty_def audio0_def model0_def lib0_def)
  from d p r z show ?thesis by blast
qed


text \<open>
  C2 (as the code has it). When the consumer takes the stop signal it leaves the receive
  loop at once. From then on nothing is written to the encoder: the buffers written at the
  end of the run are those written when the stop was taken. Together with the frames that
  were still in the capture queue at that moment they make up the accepted frames in
  order, so the frames written are the accepted frames that had been taken from the queue
  before the stop, and the frames queued at the stop are not written.
\<close>

theorem stop_leaves_loop:
  assumes "runRecord_start E name = Inr s0" and "exec s0 evs1 = Some s1"
    and "step s1 SelectSig = Some s2" and "exec s2 evs2 = Some s"
  shows "at s1 = InLoop \<and> at s \<noteq> InLoop \<and>
         writes (trace s) = writes (trace s1) \<and>
         writes (trace s) @ map samples_of (buf (audioChan s1)) = map samples_of (accepted s0 evs1)"
proof -
  note st = start_relay_ok [OF assms(1)]
  from st have ok0: "relay_ok s0" by simp
  have fifo: "writes (trace s1) @ map samples_of (buf (audioChan s1)) = map samples_of (accepted s0 evs1)"
    using exec_fifo [OF ok0 assms(2)] st by simp
  note sig = step_SelectSig [OF assms(3)]
  from sig have "at s2 \<noteq> InLoop" by simp
  from exec_after_loop [OF this assms(4)] sig fifo show ?thesis
    by simp
qed

theorem stop_leaves_loop_witness:
  "runRecord_start renv0 ''out.wav'' = Inr rec0 \<and>
   map_option (buf \<circ> audioChan)
      (exec rec0 [HwData [1, 0], SelectData None, HwData [2, 0], Signal Interrupt]) = Some [[2, 0]] \<and>
   map_option (writes \<circ> trace)
      (exec rec0 [HwData [1, 0], SelectData None, HwData [2, 0], Signal Interrupt, SelectSig,
                  DoUninit, DoClose None]) = Some [[1]] \<and>
   accepted rec0 [HwData [1, 0], SelectData None, HwData [2, 0], Signal Interrupt] = [[1, 0], [2, 0]]"
proof -
  let ?evs1 = "[HwData [1, 0], SelectData None, HwData [2, 0], Signal Interrupt]"
  let ?s1 = "rec0\<lparr>audioChan := \<lparr>cap = 1024, buf = [[2, 0]], sendq = []\<rparr>,
                   sigChan := \<lparr>cap = 1, buf = [Interrupt], sendq = []\<rparr>,
                   trace := [DeviceStart, Print Stdout RecordingBanner, EncWrite [1]]\<rparr>"
  let ?s2 = "?s1\<lparr>sigChan := \<lparr>cap = 1, buf = [], sendq = []\<rparr>, at := AfterLoop,
                   trace := [DeviceStart, Print Stdout RecordingBanner, EncWrite [1],
                             Print Stdout StopDetected]\<rparr>"
  let ?s = "?s2\<lparr>at := Finished, device_running := False,
                  trace := [DeviceStart, Print Stdout RecordingBanner, EncWrite [1],
                            Print Stdout StopDetected, DeviceUninit, EncClose,
                            Print Stdout (RecordingDone ''out.wav''), OutFileClose, CtxUninit, CtxFree]\<rparr>"
  have s1: "samples_of [1, 0] = [1]"
    by (simp add: samples_of_def sample_at_def)
  have e1: "exec rec0 ?evs1 = Some ?s1"
    by (simp add: rec0_def Data_callback_eq chan_try_recv_def chan_try_send_def bytes_to_ints_samples s1)
  have e2: "step ?s1 SelectSig = Some ?s2"
    by (simp add: rec0_def chan_try_recv_def)
  have e3: "exec ?s2 [DoUninit, DoClose None] = Some ?s"
    by (simp add: rec0_def)
  have a: "accepted rec0 ?evs1 = [[1, 0], [2, 0]]"
    by (simp add: rec0_def Data_callback_eq chan_try_recv_def chan_try_send_def bytes_to_ints_samples s1)
  have all: "exec rec0 (?evs1 @ [SelectSig, DoUninit, DoClose None]) = Some ?s"
    by (simp add: rec0_def Data_callback_eq chan_try_recv_def chan_try_send_def bytes_to_ints_samples s1)
  from stop_leaves_loop [OF rec0_start e1 e2 e3] e1 all a rec0_start show ?thesis
    by simp
qed

text \<open>
  The claim as stated fails: a frame is accepted into the queue, the signal arrives and
  the \<open>select\<close> takes the signal; the run finishes with nothing written to the
  encoder and the frame still in the queue.
\<close>

theorem queued_frame_lost_counterexample:
  "runRecord_start renv0 ''out.wav'' = Inr rec0 \<and>
   accepted rec0 [HwData [1, 0], Signal Interrupt] = [[1, 0]] \<and>
   map_option at (exec rec0 [HwData [1, 0], Signal Interrupt, SelectSig, DoUninit, DoClose None])
     = Some Finished \<and>
   map_option (writes \<circ> trace)
     (exec rec0 [HwData [1, 0], Signal Interrupt, SelectSig, DoUninit, DoClose None]) = Some [] \<and>
   map_option (buf \<circ> audioChan)
     (exec rec0 [HwData [1, 0], Signal Interrupt, SelectSig, DoUninit, DoClose None]) = Some [[1, 0]]"
  by (simp add: rec0_start)
     (simp add: rec0_def Data_callback_eq chan_try_recv_def chan_try_send_def)


text \<open>
  C3. In every state that a run of the recorder reaches, the capture queue has capacity
  1024, holds at most 1024 frames and has no parked sender: the callback never blocks. On
  a full queue the callback leaves the queue as it is, dropping the incoming frame;
  otherwise it appends the frame. The buffers written to the encoder followed by the
  frames still queued are exactly the accepted frames in the order of their acceptance
  (the consumer takes them first in, first out), the accepted frames are a subsequence of
  the produced frames, and so the consumer-observed sequence is a subsequence of the
  produced sequence. A burst of frames with no consumer step in between leaves the first
  1024 of them in the queue: the newest are the ones dropped.
\<close>

theorem capture_relay_fifo:
  assumes "runRecord_start E name = Inr s0" and "exec s0 evs = Some s"
  shows "cap (audioChan s) = 1024 \<and> length (buf (audioChan s)) \<le> 1024 \<and>
         sendq (audioChan s) = [] \<and>
         Data_callback (audioChan s) f =
           (if length (buf (audioChan s)) < 1024
            then (audioChan s)\<lparr>buf := buf (audioChan s) @ [f]\<rparr> else audioChan s) \<and>
         writes (trace s) @ map samples_of (buf (audioChan s)) = map samples_of (accepted s0 evs) \<and>
         subseq (accepted s0 evs) (produced evs) \<and>
         writes (trace s) = map samples_of (take (length (writes (trace s))) (accepted s0 evs)) \<and>
         subseq (take (length (writes (trace s))) (accepted s0 evs)) (produced evs) \<and>
         (\<exists>s'. exec s0 (map HwData fs) = Some s' \<and> buf (audioChan s') = take 1024 fs)"
proof -
  note st = start_relay_ok [OF assms(1)]
  from st have ok0: "relay_ok s0" by simp
  from exec_relay_ok [OF ok0 assms(2)] st
  have ok: "relay_ok s" and c: "cap (audioChan s) = 1024" by simp_all
  have fifo: "writes (trace s) @ map samples_of (buf (audioChan s)) = map samples_of (accepted s0 evs)"
    using exec_fifo [OF ok0 assms(2)] st by simp
  have sub: "subseq (accepted s0 evs) (produced evs)"
    by (rule accepted_subseq)
  let ?kept = "take (length (writes (trace s))) (accepted s0 evs)"
  have "writes (trace s) = take (length (writes (trace s))) (map samples_of (accepted s0 evs))"
    by (simp flip: fifo)
  then have k: "writes (trace s) = map samples_of ?kept"
    by (simp add: take_map)
  have "subseq ?kept (accepted s0 evs)"
    by (rule prefix_imp_subseq) (rule take_is_prefix)
  from this sub have ex: "subseq ?kept (produced evs)"
    by (rule subseq_order.trans)
  have run0: "device_running s0"
    using runRecord_start_Inr [OF assms(1)] by simp
  from exec_HwData_burst [OF run0 ok0, of fs] st
  have burst: "\<exists>s'. exec s0 (map HwData fs) = Some s' \<and> buf (audioChan s') = take 1024 fs"
    by auto
  from ok c fifo sub k ex burst show ?thesis
    by (simp add: relay_ok_def Data_callback_eq)
qed


theorem capture_relay_fifo_witness:
  "runRecord_start renv0 ''out.wav'' = Inr rec0 \<and>
   map_option (buf \<circ> audioChan) (exec rec0 [HwData [1, 0], HwData [2, 0, 3, 0], SelectData None])
     = Some [[2, 0, 3, 0]] \<and>
   map_option (writes \<circ> trace) (exec rec0 [HwData [1, 0], HwData [2, 0, 3, 0], SelectData None])
     = Some [[1]] \<and>
   accepted rec0 [HwData [1, 0], HwData [2, 0, 3, 0], SelectData None] = [[1, 0], [2, 0, 3, 0]] \<and>
   subseq [[1, 0], [2, 0, 3, 0]] (produced [HwData [1, 0], HwData [2, 0, 3, 0], SelectData None])"
proof -
  let ?evs = "[HwData [1, 0], HwData [2, 0, 3, 0], SelectData None]"
  let ?s = "rec0\<lparr>audioChan := \<lparr>cap = 1024, buf = [[2, 0, 3, 0]], sendq = []\<rparr>,
                  trace := [DeviceStart, Print Stdout RecordingBanner, EncWrite [1]]\<rparr>"
  have s1: "samples_of [1, 0] = [1]"
    by (simp add: samples_of_def sample_at_def)
  have e: "exec rec0 ?evs = Some ?s"
    by (simp add: rec0_def Data_callback_eq chan_try_recv_def bytes_to_ints_samples s1)
  have a: "accepted rec0 ?evs = [[1, 0], [2, 0, 3, 0]]"
    by (simp add: rec0_def Data_callback_eq chan_try_recv_def bytes_to_ints_samples s1)
  from capture_relay_fifo [OF rec0_start e, of "[]" "[]"] e a rec0_start show ?thesis
    by simp
qed

text \<open>
  C4. The completion signal is meant to be a cell of capacity one on which the audio
  thread's send cannot block. The channel that \<open>initialModel\<close> makes has capacity 0 and
  the callback sends on it with a blocking send: on the initial model, with no receiver
  polling, the send does not complete and the sender is parked on the channel, and it
  stays parked while the update function handles a key, a resize or a frame message.
\<close>

theorem done_send_parks_sender:
  "fst (initialModel lib0 env0 ''a.wav'') = Inr (model0, audio0) \<and>
   cap (done_chan audio0) = 0 \<and>
   snd (done_callback audio0) = Blocked \<and>
   sendq (done_chan (fst (done_callback audio0))) = [True] \<and>
   sendq (done_chan (fst (Update lib0 (fst (done_callback audio0)) model0 (KeyMsg '' '')))) = [True] \<and>
   sendq (done_chan (fst (Update lib0 (fst (done_callback audio0)) model0 (WindowSizeMsg 100 40)))) = [True] \<and>
   sendq (done_chan (fst (Update lib0 (fst (done_callback audio0)) model0 (FrameMsg 0)))) = [True]"
proof -
  have i: "fst (initialModel lib0 env0 ''a.wav'') = Inr (model0, audio0)"
    by (simp add: initialModel0)
  have s: "done_callback audio0 =
             (audio0\<lparr>done_chan := \<lparr>cap = 0, buf = [], sendq = [True]\<rparr>\<rparr>, Blocked)"
    by (simp add: audio0_def done_callback_def chan_send_def)
  have c: "cap (done_chan audio0) = 0"
    by (simp add: audio0_def)
  have u: "sendq (done_chan (fst (Update lib0 (fst (done_callback audio0)) model0 (KeyMsg '' '')))) = [True]"
          "sendq (done_chan (fst (Update lib0 (fst (done_callback audio0)) model0 (WindowSizeMsg 100 40)))) = [True]"
          "sendq (done_chan (fst (Update lib0 (fst (done_callback audio0)) model0 (FrameMsg 0)))) = [True]"
    by (simp_all add: s Update_def touch_def Let_def split: prod.splits)
  from i s c u show ?thesis by simp
qed


text \<open>
  C5. For every captured byte buffer the conversion succeeds and yields one sample per
  complete byte pair; sample \<open>i\<close> of the output, read as a signed integer, is exactly the
  signed 16-bit value formed from byte \<open>2i\<close> (low) and byte \<open>2i+1\<close> (high): it is
  sign-extended into the wider integer and neither clipped nor scaled.
\<close>

theorem bytes_to_ints_sign_extends:
  assumes "i < length data div 2"
  shows "\<exists>out. bytes_to_ints data = Some out \<and> length out = length data div 2 \<and>
           out ! i = scast ((ucast (data ! (2 * i)) OR push_bit 8 (ucast (data ! (2 * i + 1)))) :: uint16) \<and>
           sint (out ! i) = int16_value (data ! (2 * i)) (data ! (2 * i + 1))"
proof -
  have "map (sample_at data) [0..<length data div 2] ! i = sample_at data i"
    using assms by simp
  then show ?thesis
    using sint_sample_at [of data i]
    by (simp add: bytes_to_ints_eq sample_at_def mult.commute)
qed

theorem bytes_to_ints_sign_extends_witness:
  "(1::nat) < length [0xFF, 0xFF, 0x00, 0x80, 0x07 :: byte] div 2 \<and>
   (\<exists>out. bytes_to_ints [0xFF, 0xFF, 0x00, 0x80, 0x07] = Some out \<and> length out = 2 \<and>
      out ! 1 = - 32768 \<and> sint (out ! 1) = - 32768)"
  using bytes_to_ints_sign_extends [of 1 "[0xFF, 0xFF, 0x00, 0x80, 0x07]"]
  by (auto simp: int16_value_def)


text \<open>
  C6. In every state that a run of the recorder reaches, the calls made so far to the
  device and to the encoder are the start of the device, the writes, and then the part of
  the shutdown sequence done so far: \<open>device.Uninit()\<close> first, \<open>encoder.Close()\<close>
  second and last. The encoder is closed exactly once when the run has finished and not
  at all before; the device delivers no frame once it is stopped, so the close comes only
  after capture has stopped; and after the loop the two steps of the shutdown can always
  be taken and end the run.
\<close>

theorem finalization_order:
  assumes "runRecord_start E name = Inr s0" and "exec s0 evs = Some s"
  shows "filter is_call (trace s) =
           DeviceStart # map EncWrite (writes (trace s)) @ finalization (at s) \<and>
         (device_running s \<longleftrightarrow> at s = InLoop \<or> at s = AfterLoop) \<and>
         at s \<noteq> Panicked \<and>
         count_list (trace s) EncClose = (if at s = Finished then 1 else 0) \<and>
         (at s = AfterLoop \<longrightarrow>
            (\<exists>s'. exec s [DoUninit, DoClose r] = Some s' \<and> at s' = Finished)) \<and>
         (step s (HwData f) = None) = (at s = DeviceStopped \<or> at s = Finished)"
proof -
  have i: "shutdown_inv s"
    by (rule exec_shutdown_inv [OF start_shutdown_inv [OF assms(1)] assms(2)])
  then have
    ws: "filter is_call (trace s) = DeviceStart # map EncWrite (writes (trace s)) @ finalization (at s)"
    by (simp add: shutdown_inv_def)
  have "count_list (trace s) EncClose = count_list (filter is_call (trace s)) EncClose"
    by (simp add: count_list_calls)
  also have "\<dots> = (if at s = Finished then 1 else 0)"
    by (cases "at s") (simp_all add: ws count_list_EncWrite)
  finally have c: "count_list (trace s) EncClose = (if at s = Finished then 1 else 0)" .
  have fin: "at s = AfterLoop \<longrightarrow> (\<exists>s'. exec s [DoUninit, DoClose r] = Some s' \<and> at s' = Finished)"
    by simp
  have hw: "(step s (HwData f) = None) = (at s = DeviceStopped \<or> at s = Finished)"
    using i by (cases "at s") (auto simp: shutdown_inv_def)
  from i c fin ws hw show ?thesis
    by (auto simp: shutdown_inv_def)
qed

theorem finalization_order_witness:
  "runRecord_start renv0 ''out.wav'' = Inr rec0 \<and>
   map_option (filter is_call \<circ> trace)
     (exec rec0 [HwData [1, 0], SelectData None, Signal SIGTERM, SelectSig, DoUninit, DoClose None])
     = Some [DeviceStart, EncWrite [1], DeviceUninit, EncClose] \<and>
   map_option device_running
     (exec rec0 [HwData [1, 0], SelectData None, Signal SIGTERM, SelectSig, DoUninit, DoClose None])
     = Some False \<and>
   map_option at (exec rec0 [HwData [1, 0], SelectData None, Signal SIGTERM, SelectSig])
     = Some AfterLoop"
proof -
  let ?evs = "[HwData [1, 0], SelectData None, Signal SIGTERM, SelectSig]"
  let ?s = "rec0\<lparr>audioChan := \<lparr>cap = 1024, buf = [], sendq = []\<rparr>,
                  sigChan := \<lparr>cap = 1, buf = [], sendq = []\<rparr>, at := AfterLoop,
                  trace := [DeviceStart, Print Stdout RecordingBanner, EncWrite [1],
                            Print Stdout StopDetected]\<rparr>"
  have s1: "samples_of [1, 0] = [1]"
    by (simp add: samples_of_def sample_at_def)
  have e: "exec rec0 ?evs = Some ?s"
    by (simp add: rec0_def Data_callback_eq chan_try_recv_def chan_try_send_def bytes_to_ints_samples s1)
  have all: "exec rec0 (?evs @ [DoUninit, DoClose None]) =
               exec ?s [DoUninit, DoClose None]"
    by (simp add: rec0_def Data_callback_eq chan_try_recv_def chan_try_send_def bytes_to_ints_samples s1)
  from finalization_order [OF rec0_start e, of None "[]"] e all rec0_start show ?thesis
    by (auto simp: rec0_def)
qed


text \<open>
  C7. The handler of the space key flips the pause gate in the state it returns, with no
  command scheduled: the toggle does not wait for a tick. A second space key right after
  the first returns the gate to its original value and leaves the position where it was.
  With any hardware callbacks in between the gate is still restored, and while the gate is
  paused they do not advance the position: from a running player the position after the
  second toggle is the position before the first. The gate is what holds the position:
  running and short of the end, a callback for a non-empty buffer advances it.
\<close>

theorem space_toggles_gate:
  "(case Update L w m (KeyMsg '' '') of (w1, m1, c1) \<Rightarrow>
      c1 = NilCmd \<and> Paused w1 = (\<not> Paused w) \<and> playing m1 = Paused w \<and>
      position w1 = position w \<and>
      (case Update L w1 m1 (KeyMsg '' '') of (w2, m2, c2) \<Rightarrow>
         c2 = NilCmd \<and> Paused w2 = Paused w \<and> playing m2 = (\<not> Paused w) \<and>
         position w2 = position w \<and>
         accesses w2 = accesses w @
           [ReadPaused, WritePaused, ReadPaused, ReadPaused, WritePaused, ReadPaused]) \<and>
      (Paused w1 \<longrightarrow> position (fold hw_callback ns w1) = position w) \<and>
      (case Update L (fold hw_callback ns w1) m1 (KeyMsg '' '') of (w2, m2, c2) \<Rightarrow>
         c2 = NilCmd \<and> Paused w2 = Paused w \<and> playing m2 = (\<not> Paused w) \<and>
         (\<not> Paused w \<longrightarrow> position w2 = position w) \<and>
         (Paused w2 \<longrightarrow> position (fold hw_callback ns' w2) = position w2))) \<and>
   (\<not> Paused w \<and> position w < len w \<and> 0 < n \<longrightarrow> position w < position (hw_callback n w))"
proof -
  let ?w1 = "w\<lparr>Paused := \<not> Paused w,
               accesses := accesses w @ [ReadPaused, WritePaused, ReadPaused]\<rparr>"
  let ?h = "fold hw_callback ns ?w1"
  have P: "Paused ?h = (\<not> Paused w)"
    by (simp add: hw_callbacks_Paused)
  have still: "Paused ?w1 \<longrightarrow> position ?h = position w"
    by (simp add: hw_callbacks_paused)
  have after: "\<And>v. Paused v \<longrightarrow> position (fold hw_callback ns' v) = position v"
    by (simp add: hw_callbacks_paused)
  have adv: "\<not> Paused w \<and> position w < len w \<and> 0 < n \<longrightarrow> position w < position (hw_callback n w)"
    by (simp add: hw_callback_def)
  show ?thesis
    using P still adv
    by (simp add: Update_space hw_callbacks_paused)
qed

theorem space_toggles_gate_witness:
  "(case Update lib0 audio_1s model0 (KeyMsg '' '') of (w1, m1, c1) \<Rightarrow>
      c1 = NilCmd \<and> Paused w1 \<and> \<not> playing m1 \<and>
      position (fold hw_callback [4410, 4410] w1) = 44100 \<and>
      (case Update lib0 (fold hw_callback [4410, 4410] w1) m1 (KeyMsg '' '') of (w2, m2, c2) \<Rightarrow>
         \<not> Paused w2 \<and> playing m2 \<and> position w2 = 44100)) \<and>
   \<not> Paused audio_1s \<and> position audio_1s < len audio_1s \<and> (0::nat) < 4410 \<and>
   position (hw_callback 4410 audio_1s) = 48510"
  using space_toggles_gate [where L = lib0 and w = audio_1s and m = model0
          and ns = "[4410, 4410]" and ns' = "[]" and n = 4410]
  by (simp add: Update_space audio_1s_def audio0_def model0_def hw_callback_def)


text \<open>
  C8 (as the code has it). Every start-up error ends the program before any user
  interface is shown and with a non-zero exit status. In the player (the file cannot be
  opened or decoded, or the speaker cannot be initialised) \<open>runPlayer\<close> prints the error
  with \<open>fmt.Printf\<close>, that is to standard output, starts no UI and exits with status 1.
  In the recorder (context, device, output file or device start fails) \<open>runRecord\<close>
  panics: after the deferred releases the panic message goes to standard error, the
  banner is never printed and the exit status is 2.
\<close>

theorem startup_errors_abort:
  "(fst (initialModel L E fname) = Inl e \<longrightarrow>
      events (runPlayer L E fname) = snd (initialModel L E fname) @ [Print Stdout (ErrorInitializing e)] \<and>
      UIRun \<notin> set (events (runPlayer L E fname)) \<and>
      exit_status (runPlayer L E fname) = 1) \<and>
   (runRecord_start RE name = Inl r \<longrightarrow>
      (\<exists>x deferred. events r = deferred @ [Print Stderr (PanicMessage x)] \<and>
          set deferred \<subseteq> {OutFileClose, CtxUninit, CtxFree}) \<and>
      exit_status r = 2)"
proof -
  have p: "fst (initialModel L E fname) = Inl e \<longrightarrow>
      events (runPlayer L E fname) = snd (initialModel L E fname) @ [Print Stdout (ErrorInitializing e)] \<and>
      UIRun \<notin> set (events (runPlayer L E fname)) \<and>
      exit_status (runPlayer L E fname) = 1"
    using initialModel_no_UIRun [of L E fname]
    by (cases "initialModel L E fname") (auto simp: runPlayer_def)
  have r: "runRecord_start RE name = Inl r \<longrightarrow>
      (\<exists>x deferred. events r = deferred @ [Print Stderr (PanicMessage x)] \<and>
          set deferred \<subseteq> {OutFileClose, CtxUninit, CtxFree}) \<and>
      exit_status r = 2"
    by (auto simp: runRecord_start_def go_panic_def split: option.splits)
  from p r show ?thesis by blast
qed

theorem startup_errors_abort_witness:
  "fst (initialModel lib0 env_missing ''a.wav'') = Inl (OpenFailed ''no such file'') \<and>
   events (runPlayer lib0 env_missing ''a.wav'')
     = [Print Stdout (ErrorInitializing (OpenFailed ''no such file''))] \<and>
   exit_status (runPlayer lib0 env_missing ''a.wav'') = 1 \<and>
   runRecord_start renv_nodevice ''out.wav''
     = Inl \<lparr>events = [CtxUninit, CtxFree, Print Stderr (PanicMessage ''no capture device'')],
            exit_status = 2\<rparr>"
proof -
  have i: "initialModel lib0 env_missing ''a.wav'' = (Inl (OpenFailed ''no such file''), [])"
    by (simp add: initialModel_def env_missing_def)
  have r: "runRecord_start renv_nodevice ''out.wav''
     = Inl \<lparr>events = [CtxUninit, CtxFree, Print Stderr (PanicMessage ''no capture device'')],
            exit_status = 2\<rparr>"
    by (simp add: runRecord_start_def renv_nodevice_def go_panic_def)
  from startup_errors_abort [of lib0 env_missing "''a.wav''" "OpenFailed ''no such file''"
         renv_nodevice "''out.wav''"
         "\<lparr>events = [CtxUninit, CtxFree, Print Stderr (PanicMessage ''no capture device'')],
            exit_status = 2\<rparr>"] i r
  show ?thesis by simp
qed

text \<open>
  The claim as stated fails for the player: when the file cannot be opened the only line
  printed goes to standard output, and nothing is written to standard error.
\<close>

theorem player_error_on_stdout_counterexample:
  "fst (initialModel lib0 env_missing ''a.wav'') = Inl (OpenFailed ''no such file'') \<and>
   events (runPlayer lib0 env_missing ''a.wav'')
     = [Print Stdout (ErrorInitializing (OpenFailed ''no such file''))] \<and>
   Print Stderr (ErrorInitializing (OpenFailed ''no such file''))
     \<notin> set (events (runPlayer lib0 env_missing ''a.wav''))"
  by (simp add: runPlayer_def initialModel_def env_missing_def)


text \<open>
  C9. Every read of the stream position by the control code is made while the shared
  audio lock is held. The tick handler keeps the discipline (lemma
  \<open>Update_tick_reads_locked\<close>), but \<open>View\<close> does not: rendering the initial model reads
  the position with no lock taken.
\<close>

theorem View_reads_position_unlocked:
  "accesses (snd (View lib0 audio0 model0)) = [StreamerPosition] \<and>
   \<not> locked_reads False (accesses (snd (View lib0 audio0 model0)))"
  by (simp add: View_def touch_def Let_def audio0_def model0_def)


text \<open>
  C10. The playing flag of the model is the negation of the pause gate: the model that
  \<open>initialModel\<close> returns is playing with the gate open, and every message handled by
  the update function (key, tick, frame, resize or any other) preserves
  \<open>playing = \<not> Paused\<close>.
\<close>

theorem playing_iff_not_Paused:
  "(initialModel L E fname = (Inr (m0, w0), evs) \<longrightarrow> playing m0 \<and> \<not> Paused w0) \<and>
   (playing m = (\<not> Paused w) \<longrightarrow>
      (case Update L w m ms of (w', m', c) \<Rightarrow> playing m' = (\<not> Paused w')))"
proof -
  have a: "initialModel L E fname = (Inr (m0, w0), evs) \<longrightarrow> playing m0 \<and> \<not> Paused w0"
    by (auto simp: initialModel_def Let_def split: option.splits sum.splits prod.splits)
  have b: "playing m = (\<not> Paused w) \<longrightarrow>
      (case Update L w m ms of (w', m', c) \<Rightarrow> playing m' = (\<not> Paused w'))"
  proof (cases ms)
    case tickMsg
    then show ?thesis by (simp add: Update_tick)
  qed (auto simp: Update_def touch_def Let_def split: prod.splits)
  from a b show ?thesis by blast
qed

theorem playing_iff_not_Paused_witness:
  "initialModel lib0 env0 ''a.wav'' = (Inr (model0, audio0), [SpeakerPlay]) \<and>
   playing model0 \<and> \<not> Paused audio0 \<and>
   playing model0 = (\<not> Paused audio0) \<and>
   (case Update lib0 audio0 model0 (KeyMsg '' '') of (w', m', c) \<Rightarrow>
      playing m' = (\<not> Paused w') \<and> Paused w')"
  using playing_iff_not_Paused [of lib0 env0 "''a.wav''" model0 audio0 "[SpeakerPlay]"
          model0 audio0 "KeyMsg '' ''"]
        initialModel0
  by (simp add: Update_def touch_def Let_def model0_def audio0_def)


end
